theory Spec2Isabelle
  imports Complex_Main "HOL-Library.AList"
begin

section \<open>Data model\<close>

text \<open>
  The backend is an Express application over Mongoose models. Every collection is a
  component of an explicit database state; every route handler is a function from the
  state and the request to a response and the new state. Object ids are natural numbers.
  A JavaScript \<open>Number\<close> that holds money or an average is a rational, and sums and
  products of money are exact; the rating handler, where the rounding of doubles decides
  the stored digits, takes that rounding as a parameter. Quantities, stock levels and
  counters are integers.
  Request time (\<open>new Date()\<close>) is the parameter \<open>now\<close> of each handler.
  Saving an order runs the order schema's validators first and the schema's pre-save hook
  after them, as Mongoose does; a failed validation throws, and the handler's catch
  answers 500. Cart documents are read from the database and taken to satisfy the cart
  schema, so their saves store the document. \<open>findByIdAndUpdate\<close> applies its update
  to the stored document (Mongoose runs no validators on it unless asked to, and the
  handlers never ask).
  Authentication and the role check of each route belong to the identity middleware: a
  handler receives the id of an authenticated user of the right role. Request fields that
  the express validators constrain to an enumeration are datatypes; a delivery address is
  an opaque string. Requests are handled one at a time.
\<close>

type_synonym product_id = nat
type_synonym store_id = nat
type_synonym user_id = nat
type_synonym order_id = nat
type_synonym date = nat

subsection \<open>models/Product.js\<close>

datatype product_status = Active | Inactive | Out_of_stock | Discontinued

record product =
  p_store :: store_id
  p_name :: string
  p_images :: "string list"
  p_sellingPrice :: rat
  p_unit :: string
  p_stock :: int
  p_trackStock :: bool
  p_status :: product_status

text \<open>
  \<open>productSchema.methods.updateStock\<close>: the model's own stock adjustment. No handler of
  the cart and order routes calls it.
\<close>

definition updateStock :: "int \<Rightarrow> product \<Rightarrow> product" where
  "updateStock quantity p =
     (if p_trackStock p then
        (let p1 = p\<lparr>p_stock := max 0 (p_stock p + quantity)\<rparr>
         in if p_stock p1 = 0 then p1\<lparr>p_status := Out_of_stock\<rparr>
            else if p_status p1 = Out_of_stock then p1\<lparr>p_status := Active\<rparr>
            else p1)
      else p)"

subsection \<open>models/Store.js\<close>

record store =
  s_owner :: user_id
  s_isActive :: bool
  s_deliveryFee :: rat
  s_rating_average :: rat
  s_rating_count :: int
  s_totalOrders :: int
  s_totalRevenue :: rat

subsection \<open>models/Cart.js\<close>

record cart_item =
  ci_product :: product_id
  ci_quantity :: int
  ci_price :: rat

record cart =
  c_items :: "cart_item list"
  c_lastUpdated :: date

text \<open>\<open>cartSchema.methods.removeItem\<close> and \<open>clearCart\<close>.\<close>

definition removeItem :: "product_id \<Rightarrow> date \<Rightarrow> cart \<Rightarrow> cart" where
  "removeItem productId now c =
     c\<lparr>c_items := filter (\<lambda>item. ci_product item \<noteq> productId) (c_items c),
       c_lastUpdated := now\<rparr>"

definition clearCart :: "date \<Rightarrow> cart \<Rightarrow> cart" where
  "clearCart now c = c\<lparr>c_items := [], c_lastUpdated := now\<rparr>"

subsection \<open>models/Order.js\<close>

datatype order_status =
  Pending | Confirmed | Preparing | Ready | Out_for_delivery | Delivered | Cancelled | Refunded

datatype delivery_type = Pickup | Delivery

record product_snapshot =
  ps_name :: string
  ps_price :: rat
  ps_unit :: string
  ps_image :: string

record order_item =
  oi_product :: product_id
  oi_snapshot :: product_snapshot
  oi_quantity :: int
  oi_price :: rat
  oi_total :: rat

record delivery =
  d_type :: delivery_type
  d_address :: "string option"
  d_fee :: rat
  d_deliveredAt :: "date option"

record pricing =
  subtotal :: rat
  deliveryFee :: rat
  tax :: rat
  discount :: rat
  total :: rat

record timeline_entry =
  t_status :: order_status
  t_timestamp :: date
  t_note :: string

record rating =
  r_value :: int
  r_review :: string
  r_ratedAt :: date

text \<open>
  An order document. The order number is \<open>None\<close> while the document has none. The
  payment block is written by no handler and read by no property below; it is left out.
  A rating that was never written is \<open>None\<close>.
\<close>

record order =
  o_id :: order_id
  o_orderNumber :: "string option"
  o_customer :: user_id
  o_store :: store_id
  o_items :: "order_item list"
  o_status :: order_status
  o_delivery :: delivery
  o_pricing :: pricing
  o_timeline :: "timeline_entry list"
  o_notes :: "string option"
  o_rating :: "rating option"

text \<open>
  \<open>orderSchema.methods.updateStatus\<close>, \<open>calculateTotal\<close>, \<open>addRating\<close>. The branch of
  \<open>updateStatus\<close> for \<open>'paid'\<close> is dead: no order status has that name.
\<close>

definition updateStatus :: "order_status \<Rightarrow> string \<Rightarrow> date \<Rightarrow> order \<Rightarrow> order" where
  "updateStatus newStatus note now ord =
     (let o1 = ord\<lparr>o_status := newStatus,
                    o_timeline := o_timeline ord @
                      [\<lparr>t_status = newStatus, t_timestamp = now, t_note = note\<rparr>]\<rparr>
      in if newStatus = Delivered
         then o1\<lparr>o_delivery := (o_delivery o1)\<lparr>d_deliveredAt := Some now\<rparr>\<rparr>
         else o1)"

definition calculateTotal :: "order \<Rightarrow> order" where
  "calculateTotal ord =
     (let sub = foldl (\<lambda>t item. t + oi_total item) 0 (o_items ord);
          p = (o_pricing ord)\<lparr>subtotal := sub\<rparr>
      in ord\<lparr>o_pricing := p\<lparr>total := subtotal p + deliveryFee p + tax p - discount p\<rparr>\<rparr>)"

definition addRating :: "int \<Rightarrow> string \<Rightarrow> date \<Rightarrow> order \<Rightarrow> order" where
  "addRating v review now ord =
     ord\<lparr>o_rating := Some \<lparr>r_value = v, r_review = review, r_ratedAt = now\<rparr>\<rparr>"

text \<open>
  The validators of the order schema on the fields above: the order number is required
  (for a string that excludes the empty one), a line's quantity is at least 1, its price
  and total at least 0, the five pricing amounts are at least 0, and a rating value lies
  between 1 and 5. The other required fields are always present in this record.
\<close>

definition validate_order :: "order \<Rightarrow> bool" where
  "validate_order ord =
     ((case o_orderNumber ord of None \<Rightarrow> False | Some n \<Rightarrow> n \<noteq> [])
      \<and> list_all (\<lambda>item. 1 \<le> oi_quantity item \<and> 0 \<le> oi_price item \<and> 0 \<le> oi_total item)
            (o_items ord)
      \<and> 0 \<le> subtotal (o_pricing ord) \<and> 0 \<le> deliveryFee (o_pricing ord)
      \<and> 0 \<le> tax (o_pricing ord) \<and> 0 \<le> discount (o_pricing ord)
      \<and> 0 \<le> total (o_pricing ord)
      \<and> (case o_rating ord of None \<Rightarrow> True | Some r \<Rightarrow> 1 \<le> r_value r \<and> r_value r \<le> 5))"

subsection \<open>The database and the responses\<close>

record state =
  products :: "product_id \<rightharpoonup> product"
  stores :: "(store_id \<times> store) list"
  carts :: "user_id \<rightharpoonup> cart"
  orders :: "order_id \<rightharpoonup> order"
  nextOrderId :: order_id

text \<open>The error responses of the handlers, one constructor per message.\<close>

datatype error =
    ValidationError
  | CartNotFound
  | EmptyCart
  | NoValidItems
  | OrderNotFound
  | AccessDenied
  | NotCancellable
  | NotDeliveredYet
  | AlreadyRated
  | InternalError

section \<open>routes/cart.js\<close>

text \<open>
  The availability test of \<open>GET /\<close>, on a populated line: the product must exist, be
  active, and have enough stock unless its stock is not tracked.
\<close>

definition available :: "(product_id \<rightharpoonup> product) \<Rightarrow> cart_item \<Rightarrow> bool" where
  "available ps item =
     (case ps (ci_product item) of
        None \<Rightarrow> False
      | Some product \<Rightarrow>
          p_status product = Active \<and>
          (p_stock product \<ge> ci_quantity item \<or> \<not> p_trackStock product))"

text \<open>
  \<open>GET /\<close>: creates the cart on first read, filters the unavailable lines out and saves
  the cart when the filter dropped something. The pre-save hook stamps \<open>lastUpdated\<close>.
\<close>

definition get_cart :: "user_id \<Rightarrow> date \<Rightarrow> state \<Rightarrow> cart \<times> state" where
  "get_cart uid now st =
     (let (c, st1) =
            (case carts st uid of
               Some c \<Rightarrow> (c, st)
             | None \<Rightarrow>
                 (let c = \<lparr>c_items = [], c_lastUpdated = now\<rparr>
                  in (c, st\<lparr>carts := (carts st)(uid \<mapsto> c)\<rparr>)));
          availableItems = filter (available (products st1)) (c_items c)
      in if length availableItems \<noteq> length (c_items c)
         then (let c1 = c\<lparr>c_items := availableItems, c_lastUpdated := now\<rparr>
               in (c1, st1\<lparr>carts := (carts st1)(uid \<mapsto> c1)\<rparr>))
         else (c, st1))"

text \<open>\<open>DELETE /remove/:productId\<close>.\<close>

definition remove_from_cart ::
  "user_id \<Rightarrow> product_id \<Rightarrow> date \<Rightarrow> state \<Rightarrow> (error + cart) \<times> state" where
  "remove_from_cart uid productId now st =
     (case carts st uid of
        None \<Rightarrow> (Inl CartNotFound, st)
      | Some c \<Rightarrow>
          (let c1 = removeItem productId now c
           in (Inr c1, st\<lparr>carts := (carts st)(uid \<mapsto> c1)\<rparr>)))"

section \<open>routes/orders.js\<close>

subsection \<open>Database primitives\<close>

text \<open>
  \<open>Product.findByIdAndUpdate(id, {$inc: {'inventory.stock': d}})\<close>: adds \<open>d\<close> to the
  stored stock; nothing happens when the product is gone.
\<close>

definition inc_stock :: "product_id \<Rightarrow> int \<Rightarrow> state \<Rightarrow> state" where
  "inc_stock pid d st =
     (case products st pid of
        None \<Rightarrow> st
      | Some p \<Rightarrow> st\<lparr>products := (products st)(pid \<mapsto> p\<lparr>p_stock := p_stock p + d\<rparr>)\<rparr>)"

text \<open>\<open>Store.findById\<close>, \<open>Store.findOne({owner})\<close> and \<open>Store.findByIdAndUpdate\<close>.\<close>

definition findStoreById :: "state \<Rightarrow> store_id \<Rightarrow> store option" where
  "findStoreById st sid = map_of (stores st) sid"

definition findStoreByOwner :: "state \<Rightarrow> user_id \<Rightarrow> (store_id \<times> store) option" where
  "findStoreByOwner st uid = find (\<lambda>e. s_owner (snd e) = uid) (stores st)"

definition updateStore :: "store_id \<Rightarrow> (store \<Rightarrow> store) \<Rightarrow> state \<Rightarrow> state" where
  "updateStore sid f st = st\<lparr>stores := AList.map_entry sid f (stores st)\<rparr>"

text \<open>
  \<open>order.save()\<close>. Validation comes first; \<open>None\<close> is the thrown validation error,
  with nothing written. Then the pre-save hook runs: a new order gets its timeline seeded,
  and every save recomputes the totals. The hook would also give a new order without a
  number a generated one, but a document that reaches the hook has passed the validator
  that requires the number, so that branch never runs. Ids are handed out in sequence.
\<close>

definition save_new_order :: "date \<Rightarrow> order \<Rightarrow> state \<Rightarrow> (order \<times> state) option" where
  "save_new_order now ord st =
     (if \<not> validate_order ord then None
      else
        (let o1 = calculateTotal
                    (ord\<lparr>o_id := nextOrderId st,
                         o_timeline := [\<lparr>t_status = Pending, t_timestamp = now,
                                         t_note = ''Order placed''\<rparr>]\<rparr>)
         in Some (o1, st\<lparr>orders := (orders st)(o_id o1 \<mapsto> o1),
                        nextOrderId := Suc (nextOrderId st)\<rparr>)))"

definition save_order :: "order \<Rightarrow> state \<Rightarrow> (order \<times> state) option" where
  "save_order ord st =
     (if \<not> validate_order ord then None
      else
        (let o1 = calculateTotal ord
         in Some (o1, st\<lparr>orders := (orders st)(o_id o1 \<mapsto> o1)\<rparr>)))"

subsection \<open>POST /checkout\<close>

type_synonym populated_item = "cart_item \<times> product"
type_synonym store_groups = "(store_id \<times> populated_item list) list"

text \<open>
  \<open>populate('items.product')\<close> pairs each line with its product as read when the
  request starts; a product that no longer exists populates as null (\<open>None\<close>).
\<close>

definition populate ::
  "(product_id \<rightharpoonup> product) \<Rightarrow> cart_item list \<Rightarrow> (cart_item \<times> product option) list" where
  "populate ps xs = map (\<lambda>item. (item, ps (ci_product item))) xs"

text \<open>
  Grouping by store: \<open>storeGroups\<close> is an object keyed by the store id's hex string, and
  \<open>Object.entries\<close> lists such keys in insertion order, so the groups are an association
  list in first-seen order. Reading \<open>item.product.store\<close> of a null product throws, and
  the handler's catch answers 500.
\<close>

fun push_group :: "store_id \<Rightarrow> populated_item \<Rightarrow> store_groups \<Rightarrow> store_groups" where
  "push_group storeId x [] = [(storeId, [x])]"
| "push_group storeId x ((k, xs) # gs) =
     (if k = storeId then (k, xs @ [x]) # gs else (k, xs) # push_group storeId x gs)"

fun group_by_store ::
  "(cart_item \<times> product option) list \<Rightarrow> store_groups \<Rightarrow> store_groups option" where
  "group_by_store [] storeGroups = Some storeGroups"
| "group_by_store ((item, None) # rest) storeGroups = None"
| "group_by_store ((item, Some product) # rest) storeGroups =
     group_by_store rest (push_group (p_store product) (item, product) storeGroups)"

definition snapshot_image :: "string list \<Rightarrow> string" where
  "snapshot_image imgs = (case imgs of [] \<Rightarrow> [] | url # _ \<Rightarrow> url)"

definition order_line :: "cart_item \<Rightarrow> product \<Rightarrow> rat \<Rightarrow> order_item" where
  "order_line item product itemTotal =
     \<lparr>oi_product = ci_product item,
      oi_snapshot = \<lparr>ps_name = p_name product, ps_price = ci_price item,
                     ps_unit = p_unit product,
                     ps_image = snapshot_image (p_images product)\<rparr>,
      oi_quantity = ci_quantity item,
      oi_price = ci_price item,
      oi_total = itemTotal\<rparr>"

text \<open>The inner loop over one store's lines, with its two accumulators.\<close>

fun validate_items ::
  "populated_item list \<Rightarrow> order_item list \<Rightarrow> rat \<Rightarrow> order_item list \<times> rat" where
  "validate_items [] validItems sub = (validItems, sub)"
| "validate_items ((item, product) # rest) validItems sub =
     (if p_status product \<noteq> Active then validate_items rest validItems sub
      else if p_trackStock product \<and> p_stock product < ci_quantity item
      then validate_items rest validItems sub
      else (let itemTotal = ci_price item * of_int (ci_quantity item)
            in validate_items rest (validItems @ [order_line item product itemTotal])
                 (sub + itemTotal)))"

text \<open>
  \<open>new Order({customer, store, items, delivery, pricing, notes})\<close>: the handler passes
  no order number, and the schema has no default for it.
\<close>

definition new_order ::
  "user_id \<Rightarrow> store_id \<Rightarrow> order_item list \<Rightarrow> delivery_type \<Rightarrow> string option \<Rightarrow> rat
     \<Rightarrow> rat \<Rightarrow> rat \<Rightarrow> string option \<Rightarrow> order" where
  "new_order uid storeId validItems deliveryType deliveryAddress fee sub tot notes =
     \<lparr>o_id = 0, o_orderNumber = None, o_customer = uid, o_store = storeId,
      o_items = validItems, o_status = Pending,
      o_delivery = \<lparr>d_type = deliveryType, d_address = deliveryAddress, d_fee = fee,
                    d_deliveredAt = None\<rparr>,
      o_pricing = \<lparr>subtotal = sub, deliveryFee = fee, tax = 0, discount = 0, total = tot\<rparr>,
      o_timeline = [], o_notes = notes, o_rating = None\<rparr>"

fun decrement_stock :: "order_item list \<Rightarrow> state \<Rightarrow> state" where
  "decrement_stock [] st = st"
| "decrement_stock (item # rest) st =
     decrement_stock rest (inc_stock (oi_product item) (- oi_quantity item) st)"

text \<open>
  The loop over the store groups; \<open>continue\<close> is the recursive call on the rest. The
  result is \<open>None\<close> when the save threw: the loop is left at once, with the database as
  the writes so far made it.
\<close>

fun create_orders ::
  "user_id \<Rightarrow> delivery_type \<Rightarrow> string option \<Rightarrow> string option \<Rightarrow> date \<Rightarrow> store_groups
     \<Rightarrow> order list \<Rightarrow> state \<Rightarrow> order list option \<times> state" where
  "create_orders uid deliveryType deliveryAddress notes now [] acc st = (Some acc, st)"
| "create_orders uid deliveryType deliveryAddress notes now ((storeId, its) # groups) acc st =
     (case findStoreById st storeId of
        None \<Rightarrow> create_orders uid deliveryType deliveryAddress notes now groups acc st
      | Some store \<Rightarrow>
          if \<not> s_isActive store
          then create_orders uid deliveryType deliveryAddress notes now groups acc st
          else
            (let (validItems, sub) = validate_items its [] 0
             in if validItems = []
                then create_orders uid deliveryType deliveryAddress notes now groups acc st
                else
                  (let fee = (if deliveryType = Delivery
                              then (if s_deliveryFee store = 0 then 0 else s_deliveryFee store)
                              else 0);
                       tot = sub + fee
                   in case save_new_order now
                             (new_order uid storeId validItems deliveryType deliveryAddress
                                fee sub tot notes) st of
                        None \<Rightarrow> (None, st)
                      | Some (ord, st1) \<Rightarrow>
                          (let st2 = decrement_stock validItems st1;
                               st3 = updateStore storeId
                                       (\<lambda>s. s\<lparr>s_totalOrders := s_totalOrders s + 1,
                                              s_totalRevenue := s_totalRevenue s + tot\<rparr>) st2
                           in create_orders uid deliveryType deliveryAddress notes now groups
                                (acc @ [ord]) st3))))"

definition checkout ::
  "user_id \<Rightarrow> delivery_type \<Rightarrow> string option \<Rightarrow> string option \<Rightarrow> date \<Rightarrow> state
     \<Rightarrow> (error + order list) \<times> state" where
  "checkout uid deliveryType deliveryAddress notes now st =
     (case carts st uid of
        None \<Rightarrow> (Inl EmptyCart, st)
      | Some c \<Rightarrow>
          if c_items c = [] then (Inl EmptyCart, st)
          else
            (case group_by_store (populate (products st) (c_items c)) [] of
               None \<Rightarrow> (Inl InternalError, st)
             | Some storeGroups \<Rightarrow>
                 (case create_orders uid deliveryType deliveryAddress notes now
                         storeGroups [] st of
                    (None, st1) \<Rightarrow> (Inl InternalError, st1)
                  | (Some os, st1) \<Rightarrow>
                      if os = [] then (Inl NoValidItems, st1)
                      else (Inr os,
                            st1\<lparr>carts := (carts st1)(uid \<mapsto> clearCart now c)\<rparr>))))"

subsection \<open>PATCH /:id/status\<close>

text \<open>
  The ownership middleware runs first, then the validators (the status list of the route
  has no \<open>refunded\<close>), then the handler. An absent note is the empty string.
\<close>

definition update_order_status ::
  "user_id \<Rightarrow> order_id \<Rightarrow> order_status \<Rightarrow> string \<Rightarrow> date \<Rightarrow> state
     \<Rightarrow> (error + order) \<times> state" where
  "update_order_status uid oid newStatus note now st =
     (case findStoreByOwner st uid of
        None \<Rightarrow> (Inl AccessDenied, st)
      | Some (sid, store) \<Rightarrow>
          if newStatus = Refunded then (Inl ValidationError, st)
          else
            (case orders st oid of
               None \<Rightarrow> (Inl OrderNotFound, st)
             | Some ord \<Rightarrow>
                 if o_store ord \<noteq> sid then (Inl AccessDenied, st)
                 else
                   (case save_order (updateStatus newStatus note now ord) st of
                      None \<Rightarrow> (Inl InternalError, st)
                    | Some (o1, st1) \<Rightarrow> (Inr o1, st1))))"

subsection \<open>PATCH /:id/cancel\<close>

fun restore_stock :: "order_item list \<Rightarrow> state \<Rightarrow> state" where
  "restore_stock [] st = st"
| "restore_stock (item # rest) st =
     restore_stock rest (inc_stock (oi_product item) (oi_quantity item) st)"

definition cancel_reason :: "string option \<Rightarrow> string" where
  "cancel_reason reason =
     (case reason of
        None \<Rightarrow> ''Cancelled by customer''
      | Some r \<Rightarrow> if r = [] then ''Cancelled by customer'' else r)"

definition cancel_order ::
  "user_id \<Rightarrow> order_id \<Rightarrow> string option \<Rightarrow> date \<Rightarrow> state \<Rightarrow> (error + order) \<times> state" where
  "cancel_order uid oid reason now st =
     (case orders st oid of
        None \<Rightarrow> (Inl OrderNotFound, st)
      | Some ord \<Rightarrow>
          if o_customer ord \<noteq> uid then (Inl AccessDenied, st)
          else if o_status ord \<in> {Delivered, Cancelled, Refunded}
          then (Inl NotCancellable, st)
          else
            (case save_order (updateStatus Cancelled (cancel_reason reason) now ord) st of
               None \<Rightarrow> (Inl InternalError, st)
             | Some (o1, st1) \<Rightarrow> (Inr o1, restore_stock (o_items o1) st1)))"

subsection \<open>POST /:id/rating\<close>

text \<open>
  The rating of the request body is any JSON value; the validator \<open>isInt({min: 1, max: 5})\<close>
  tests its string form and converts nothing. A JSON number passes when it is one of the
  integers 1 to 5. A JSON string passes when it is an optional sign and digits with a value
  from 1 to 5, and reaches the handler as a string. Anything else fails.
\<close>

datatype rating_value = RatingNum rat | RatingStr string | RatingOther

definition is_digit :: "char \<Rightarrow> bool" where
  "is_digit c = (c \<in> set ''0123456789'')"

definition digits_val :: "string \<Rightarrow> int" where
  "digits_val ds = foldl (\<lambda>a c. 10 * a + (int (of_char c) - 48)) 0 ds"

definition isInt_string :: "string \<Rightarrow> int option" where
  "isInt_string s =
     (let (neg, ds) = (case s of
                         [] \<Rightarrow> (False, [])
                       | c # r \<Rightarrow> if c = CHR ''-'' then (True, r)
                                  else if c = CHR ''+'' then (False, r) else (False, s))
      in if ds \<noteq> [] \<and> list_all is_digit ds
         then Some (if neg then - digits_val ds else digits_val ds) else None)"

text \<open>The integer a rating stands for when it passes the validator.\<close>

definition rating_int :: "rating_value \<Rightarrow> int option" where
  "rating_int r =
     (case r of
        RatingNum x \<Rightarrow> if x = of_int \<lfloor>x\<rfloor> \<and> 1 \<le> \<lfloor>x\<rfloor> \<and> \<lfloor>x\<rfloor> \<le> 5 then Some \<lfloor>x\<rfloor> else None
      | RatingStr s \<Rightarrow> (case isInt_string s of
                         None \<Rightarrow> None
                       | Some k \<Rightarrow> if 1 \<le> k \<and> k \<le> 5 then Some k else None)
      | RatingOther \<Rightarrow> None)"

text \<open>
  The runtime's arithmetic on doubles, taken as given: \<open>fl\<close> rounds the exact result of an
  operation to the double that the runtime returns, \<open>numToString\<close> is the conversion of a
  number to a string, and \<open>stringToNum\<close> the conversion of a string to a number, \<open>None\<close>
  standing for NaN.
\<close>

record js_arith =
  fl :: "rat \<Rightarrow> rat"
  numToString :: "rat \<Rightarrow> string"
  stringToNum :: "string \<Rightarrow> rat option"

text \<open>
  \<open>(store.rating.average * store.rating.count) + rating\<close>: a sum for a number, and for a
  string the concatenation of the product's string form with it, which the division then
  converts back to a number.
\<close>

definition rating_sum :: "js_arith \<Rightarrow> rat \<Rightarrow> int \<Rightarrow> rating_value \<Rightarrow> rat option" where
  "rating_sum js average cnt r =
     (let t1 = fl js (average * of_int cnt)
      in case r of
           RatingNum x \<Rightarrow> Some (fl js (t1 + x))
         | RatingStr s \<Rightarrow> stringToNum js (numToString js t1 @ s)
         | RatingOther \<Rightarrow> None)"

text \<open>
  \<open>Math.round(x * 100) / 100\<close>: the product and the quotient are rounded as doubles;
  \<open>Math.round\<close> itself is exact and rounds halves up.
\<close>

definition round2 :: "js_arith \<Rightarrow> rat \<Rightarrow> rat" where
  "round2 js x = fl js (of_int \<lfloor>fl js (x * 100) + 1 / 2\<rfloor> / 100)"

text \<open>The truthiness test \<open>if (order.rating.value)\<close>.\<close>

definition has_rating :: "order \<Rightarrow> bool" where
  "has_rating ord = (case o_rating ord of None \<Rightarrow> False | Some r \<Rightarrow> r_value r \<noteq> 0)"

text \<open>
  The handler. Mongoose casts the rating to a number when \<open>addRating\<close> sets it. When the
  new average is NaN, the update of the store is refused by the cast of its value and the
  catch answers 500, after the order has been saved.
\<close>

definition rate_order ::
  "js_arith \<Rightarrow> user_id \<Rightarrow> order_id \<Rightarrow> rating_value \<Rightarrow> string \<Rightarrow> date \<Rightarrow> state
     \<Rightarrow> (error + rating option) \<times> state" where
  "rate_order js uid oid r review now st =
     (case rating_int r of
        None \<Rightarrow> (Inl ValidationError, st)
      | Some v \<Rightarrow>
          (case orders st oid of
             None \<Rightarrow> (Inl OrderNotFound, st)
           | Some ord \<Rightarrow>
               if o_customer ord \<noteq> uid then (Inl AccessDenied, st)
               else if o_status ord \<noteq> Delivered then (Inl NotDeliveredYet, st)
               else if has_rating ord then (Inl AlreadyRated, st)
               else
                 (case save_order (addRating v review now ord) st of
                    None \<Rightarrow> (Inl InternalError, st)
                  | Some (o1, st1) \<Rightarrow>
                      (case findStoreById st1 (o_store o1) of
                         None \<Rightarrow> (Inr (o_rating o1), st1)
                       | Some store \<Rightarrow>
                           (let newRatingCount = s_rating_count store + 1
                            in case rating_sum js (s_rating_average store)
                                      (s_rating_count store) r of
                                 None \<Rightarrow> (Inl InternalError, st1)
                               | Some t2 \<Rightarrow>
                                   (let newAverageRating = fl js (t2 / of_int newRatingCount)
                                    in (Inr (o_rating o1),
                                        updateStore (o_store o1)
                                          (\<lambda>s. s\<lparr>s_rating_average := round2 js newAverageRating,
                                                 s_rating_count := newRatingCount\<rparr>)
                                          st1)))))))"

section \<open>Requests in sequence\<close>

text \<open>A request to one of the handlers above, and the database after a list of them.\<close>

datatype request =
    GetCart user_id date
  | RemoveFromCart user_id product_id date
  | Checkout user_id delivery_type "string option" "string option" date
  | UpdateStatus user_id order_id order_status string date
  | CancelOrder user_id order_id "string option" date
  | RateOrder user_id order_id rating_value string date

fun handle :: "js_arith \<Rightarrow> request \<Rightarrow> state \<Rightarrow> state" where
  "handle js (GetCart uid now) st = snd (get_cart uid now st)"
| "handle js (RemoveFromCart uid pid now) st = snd (remove_from_cart uid pid now st)"
| "handle js (Checkout uid deliveryType deliveryAddress notes now) st =
     snd (checkout uid deliveryType deliveryAddress notes now st)"
| "handle js (UpdateStatus uid oid newStatus note now) st =
     snd (update_order_status uid oid newStatus note now st)"
| "handle js (CancelOrder uid oid reason now) st = snd (cancel_order uid oid reason now st)"
| "handle js (RateOrder uid oid r review now) st = snd (rate_order js uid oid r review now st)"

definition run :: "js_arith \<Rightarrow> request list \<Rightarrow> state \<Rightarrow> state" where
  "run js rs st = fold (handle js) rs st"

text \<open>The pricing equation of an order, and of every stored order.\<close>

definition pricing_consistent :: "order \<Rightarrow> bool" where
  "pricing_consistent ord =
     (total (o_pricing ord)
        = subtotal (o_pricing ord) + deliveryFee (o_pricing ord) + tax (o_pricing ord)
          - discount (o_pricing ord))"

definition all_orders_consistent :: "state \<Rightarrow> bool" where
  "all_orders_consistent st = (\<forall>oid ord. orders st oid = Some ord \<longrightarrow> pricing_consistent ord)"

text \<open>No stored product has a negative stock.\<close>

definition stock_nonneg :: "state \<Rightarrow> bool" where
  "stock_nonneg st = (\<forall>pid p. products st pid = Some p \<longrightarrow> 0 \<le> p_stock p)"

section \<open>The checkout rules in the words of the specification\<close>

text \<open>
  What the design document says about one seller group, written declaratively. The
  theorems below compare the handler's loops with these descriptions.
\<close>

definition spec_seller_active :: "state \<Rightarrow> store_id \<Rightarrow> bool" where
  "spec_seller_active st sid =
     (case findStoreById st sid of None \<Rightarrow> False | Some s \<Rightarrow> s_isActive s)"

definition spec_line_skipped :: "populated_item \<Rightarrow> bool" where
  "spec_line_skipped ip =
     (p_status (snd ip) \<noteq> Active
      \<or> (p_trackStock (snd ip) \<and> p_stock (snd ip) < ci_quantity (fst ip)))"

definition spec_surviving :: "populated_item list \<Rightarrow> populated_item list" where
  "spec_surviving its = filter (\<lambda>ip. \<not> spec_line_skipped ip) its"

text \<open>A group is skipped: its seller is missing or inactive, or none of its lines survives.\<close>

definition spec_group_skipped :: "state \<Rightarrow> store_id \<times> populated_item list \<Rightarrow> bool" where
  "spec_group_skipped st g =
     (\<not> spec_seller_active st (fst g) \<or> spec_surviving (snd g) = [])"

text \<open>The quantity of product \<open>pid\<close> on a list of order lines.\<close>

definition ordered_qty :: "product_id \<Rightarrow> order_item list \<Rightarrow> int" where
  "ordered_qty pid its = sum_list (map oi_quantity (filter (\<lambda>i. oi_product i = pid) its))"

section \<open>A sample database\<close>

text \<open>
  Three sellers (the third inactive) and four products. Customer 21 holds a cart over all
  three sellers: product 11 was added at price 10 and now sells at 12, product 12 is out of
  stock. Customer 22 holds a single line of the inactive seller. Customer 23 holds one unit
  of product 15, whose stock is not tracked and stands at 0.
\<close>

definition ex_product :: "store_id \<Rightarrow> rat \<Rightarrow> int \<Rightarrow> bool \<Rightarrow> product" where
  "ex_product sid price stock tracked =
     \<lparr>p_store = sid, p_name = ''item'', p_images = [], p_sellingPrice = price,
      p_unit = ''piece'', p_stock = stock, p_trackStock = tracked, p_status = Active\<rparr>"

definition ex_store :: "user_id \<Rightarrow> bool \<Rightarrow> rat \<Rightarrow> store" where
  "ex_store owner active fee =
     \<lparr>s_owner = owner, s_isActive = active, s_deliveryFee = fee, s_rating_average = 0,
      s_rating_count = 0, s_totalOrders = 0, s_totalRevenue = 0\<rparr>"

definition ex_line :: "product_id \<Rightarrow> int \<Rightarrow> rat \<Rightarrow> cart_item" where
  "ex_line pid q price = \<lparr>ci_product = pid, ci_quantity = q, ci_price = price\<rparr>"

definition ex_cart1 :: cart where
  "ex_cart1 = \<lparr>c_items = [ex_line 11 3 10, ex_line 12 1 7, ex_line 13 1 50, ex_line 14 1 9],
               c_lastUpdated = 0\<rparr>"

definition ex_cart2 :: cart where
  "ex_cart2 = \<lparr>c_items = [ex_line 14 1 9], c_lastUpdated = 0\<rparr>"

definition ex_cart3 :: cart where
  "ex_cart3 = \<lparr>c_items = [ex_line 15 1 3], c_lastUpdated = 0\<rparr>"

definition ex_state :: state where
  "ex_state =
     \<lparr>products = [11 \<mapsto> ex_product 10 12 5 True, 12 \<mapsto> ex_product 10 7 0 True,
                  13 \<mapsto> ex_product 20 50 1 True, 14 \<mapsto> ex_product 30 9 4 True,
                  15 \<mapsto> ex_product 20 3 0 False],
      stores = [(10, ex_store 100 True 5), (20, ex_store 200 True 0),
                (30, ex_store 300 False 2)],
      carts = [21 \<mapsto> ex_cart1, 22 \<mapsto> ex_cart2, 23 \<mapsto> ex_cart3],
      orders = Map.empty, nextOrderId = 40\<rparr>"

definition ex_groups1 :: store_groups where
  "ex_groups1 =
     [(10, [(ex_line 11 3 10, ex_product 10 12 5 True), (ex_line 12 1 7, ex_product 10 7 0 True)]),
      (20, [(ex_line 13 1 50, ex_product 20 50 1 True)]),
      (30, [(ex_line 14 1 9, ex_product 30 9 4 True)])]"



text \<open>
  A database with stored orders of customer 21 at seller 10 (owner 100), whose rating
  stands at an average of 5 over 2 ratings: order 50 is pending, over three units of the
  tracked product 11 and one of the untracked product 15; order 51 is delivered and not
  rated. Customer 21's cart holds one unit of product 15.
\<close>

definition ex_order_line :: "product_id \<Rightarrow> int \<Rightarrow> rat \<Rightarrow> order_item" where
  "ex_order_line pid q price =
     \<lparr>oi_product = pid,
      oi_snapshot = \<lparr>ps_name = ''item'', ps_price = price, ps_unit = ''piece'', ps_image = []\<rparr>,
      oi_quantity = q, oi_price = price, oi_total = of_int q * price\<rparr>"

definition ex_order :: "order_id \<Rightarrow> order_item list \<Rightarrow> rat \<Rightarrow> rat \<Rightarrow> order" where
  "ex_order n its sub fee =
     \<lparr>o_id = n, o_orderNumber = Some ''MLM000001'', o_customer = 21, o_store = 10,
      o_items = its, o_status = Pending,
      o_delivery = \<lparr>d_type = Delivery, d_address = None, d_fee = fee, d_deliveredAt = None\<rparr>,
      o_pricing = \<lparr>subtotal = sub, deliveryFee = fee, tax = 0, discount = 0,
                   total = sub + fee\<rparr>,
      o_timeline = [\<lparr>t_status = Pending, t_timestamp = 7, t_note = ''Order placed''\<rparr>],
      o_notes = None, o_rating = None\<rparr>"

definition ex_pending :: order where
  "ex_pending = ex_order 50 [ex_order_line 11 3 10, ex_order_line 15 1 3] 33 5"

definition ex_delivered :: order where
  "ex_delivered = (ex_order 51 [ex_order_line 11 3 10] 30 5)\<lparr>o_status := Delivered\<rparr>"

definition ex_db :: state where
  "ex_db =
     \<lparr>products = [11 \<mapsto> ex_product 10 12 2 True, 15 \<mapsto> ex_product 10 3 0 False],
      stores = [(10, (ex_store 100 True 5)\<lparr>s_rating_average := 5, s_rating_count := 2\<rparr>)],
      carts = [21 \<mapsto> ex_cart3],
      orders = [50 \<mapsto> ex_pending, 51 \<mapsto> ex_delivered], nextOrderId = 52\<rparr>"

text \<open>
  Arithmetic for the examples: no rounding error, and the decimal notation of integers
  (no other number is converted in the examples).
\<close>

fun nat_to_dec :: "nat \<Rightarrow> string" where
  "nat_to_dec n =
     (if n < 10 then [char_of (48 + n)]
      else nat_to_dec (n div 10) @ [char_of (48 + n mod 10)])"

declare nat_to_dec.simps [simp del]

definition js_exact :: js_arith where
  "js_exact =
     \<lparr>fl = (\<lambda>x. x),
      numToString = (\<lambda>x. if x = of_int \<lfloor>x\<rfloor> \<and> 0 \<le> x then nat_to_dec (nat \<lfloor>x\<rfloor>) else []),
      stringToNum = (\<lambda>s. map_option of_int (isInt_string s))\<rparr>"

section \<open>Removing an absent cart line\<close>

lemma filter_absent:
  "productId \<notin> ci_product ` set xs \<Longrightarrow> filter (\<lambda>item. ci_product item \<noteq> productId) xs = xs"
  by (induction xs) auto

text \<open>
  C9. For a stored cart with no line for \<open>productId\<close>, the remove handler answers with
  the cart (no error) and the lines it had; the stored cart is that cart, with only its
  \<open>lastUpdated\<close> stamp renewed, and nothing else in the database moves. Removing the
  absent line a second time answers the same lines again.
\<close>

theorem remove_absent_line_noop:
  assumes "carts st uid = Some c"
    and "productId \<notin> ci_product ` set (c_items c)"
  shows "remove_from_cart uid productId now st =
           (Inr (c\<lparr>c_lastUpdated := now\<rparr>),
            st\<lparr>carts := (carts st)(uid \<mapsto> c\<lparr>c_lastUpdated := now\<rparr>)\<rparr>)
         \<and> c_items (c\<lparr>c_lastUpdated := now\<rparr>) = c_items c
         \<and> fst (remove_from_cart uid productId now2
                  (snd (remove_from_cart uid productId now st)))
             = Inr (c\<lparr>c_lastUpdated := now2\<rparr>)"
  using assms by (simp add: remove_from_cart_def removeItem_def filter_absent Let_def)

theorem remove_absent_line_noop_witness:
  "remove_from_cart 1 7 5
       \<lparr>products = Map.empty, stores = [],
        carts = [1 \<mapsto> \<lparr>c_items = [\<lparr>ci_product = 3, ci_quantity = 2, ci_price = 10\<rparr>],
                       c_lastUpdated = 0\<rparr>],
        orders = Map.empty, nextOrderId = 0\<rparr>
     = (Inr \<lparr>c_items = [\<lparr>ci_product = 3, ci_quantity = 2, ci_price = 10\<rparr>],
             c_lastUpdated = 5\<rparr>,
        \<lparr>products = Map.empty, stores = [],
         carts = [1 \<mapsto> \<lparr>c_items = [\<lparr>ci_product = 3, ci_quantity = 2, ci_price = 10\<rparr>],
                        c_lastUpdated = 5\<rparr>],
         orders = Map.empty, nextOrderId = 0\<rparr>)"
  using remove_absent_line_noop
    [of "\<lparr>products = Map.empty, stores = [],
          carts = [1 \<mapsto> \<lparr>c_items = [\<lparr>ci_product = 3, ci_quantity = 2, ci_price = 10\<rparr>],
                         c_lastUpdated = 0\<rparr>],
          orders = Map.empty, nextOrderId = 0\<rparr>" 1
        "\<lparr>c_items = [\<lparr>ci_product = 3, ci_quantity = 2, ci_price = 10\<rparr>], c_lastUpdated = 0\<rparr>"
        7 5 6]
  by simp

section \<open>The sample database\<close>

lemmas ex_defs = ex_state_def ex_cart1_def ex_cart2_def ex_cart3_def ex_line_def ex_product_def
  ex_store_def

lemma ex_cart1: "carts ex_state 21 = Some ex_cart1"
  by (simp add: ex_state_def)

section \<open>Reading the cart\<close>

lemma filter_length_eq: "length (filter P xs) = length xs \<Longrightarrow> filter P xs = xs"
  by (metis filter_True length_filter_less linorder_neq_iff filter_id_conv)

lemma get_cart_items:
  assumes "carts st uid = Some c"
  shows "c_items (fst (get_cart uid now st)) = filter (available (products st)) (c_items c)"
    and "carts (snd (get_cart uid now st)) uid = Some (fst (get_cart uid now st))"
    and "products (snd (get_cart uid now st)) = products st"
  using assms by (auto simp: get_cart_def Let_def filter_length_eq)

text \<open>
  C10. Reading the cart writes: the answered cart holds exactly the lines whose product
  exists, is active and has enough stock (or untracked stock), and that cart is the stored
  one afterwards. If a line was unavailable, the database differs from the one before the
  read. Whatever the products become later, a later read answers only lines that were
  available at this read: a dropped line does not come back. Checkout reads the stored
  cart, so it sees the pruned lines only.
\<close>

theorem get_cart_prunes_stored_cart:
  assumes "carts st uid = Some c"
  shows "c_items (fst (get_cart uid now st)) = filter (available (products st)) (c_items c)
     \<and> carts (snd (get_cart uid now st)) uid = Some (fst (get_cart uid now st))
     \<and> ((\<exists>item\<in>set (c_items c). \<not> available (products st) item)
          \<longrightarrow> snd (get_cart uid now st) \<noteq> st)
     \<and> (\<forall>ps' now'.
           set (c_items (fst (get_cart uid now' ((snd (get_cart uid now st))\<lparr>products := ps'\<rparr>))))
             \<subseteq> {item \<in> set (c_items c). available (products st) item})"
proof -
  let ?st1 = "snd (get_cart uid now st)"
  let ?c1 = "fst (get_cart uid now st)"
  note a = get_cart_items [OF assms, of now]
  have b: "(\<exists>item\<in>set (c_items c). \<not> available (products st) item) \<longrightarrow> ?st1 \<noteq> st"
  proof
    assume "\<exists>item\<in>set (c_items c). \<not> available (products st) item"
    then have "filter (available (products st)) (c_items c) \<noteq> c_items c"
      by (simp add: filter_id_conv)
    with a(1) have "c_items ?c1 \<noteq> c_items c" by simp
    then have "carts ?st1 uid \<noteq> carts st uid"
      using a(2) assms by auto
    then show "?st1 \<noteq> st" by auto
  qed
  have c: "set (c_items (fst (get_cart uid now' (?st1\<lparr>products := ps'\<rparr>))))
             \<subseteq> {item \<in> set (c_items c). available (products st) item}" for ps' now'
  proof -
    have "carts (?st1\<lparr>products := ps'\<rparr>) uid = Some ?c1" using a(2) by simp
    from get_cart_items(1) [OF this, of now']
    show ?thesis using a(1) by auto
  qed
  from a b c show ?thesis by blast
qed


theorem get_cart_prunes_stored_cart_witness:
  "c_items (fst (get_cart 21 9 ex_state)) = [ex_line 11 3 10, ex_line 13 1 50, ex_line 14 1 9]
   \<and> snd (get_cart 21 9 ex_state) \<noteq> ex_state
   \<and> ex_line 12 1 7 \<notin> set (c_items (fst (get_cart 21 10
         ((snd (get_cart 21 9 ex_state))
            \<lparr>products := (products ex_state)(12 \<mapsto> ex_product 10 7 100 True)\<rparr>))))"
proof -
  have f: "filter (available (products ex_state)) (c_items ex_cart1)
             = [ex_line 11 3 10, ex_line 13 1 50, ex_line 14 1 9]"
    by (simp add: ex_defs available_def)
  have u: "\<exists>item\<in>set (c_items ex_cart1). \<not> available (products ex_state) item"
    by (simp add: ex_defs available_def)
  have n: "ex_line 12 1 7
             \<notin> {item \<in> set (c_items ex_cart1). available (products ex_state) item}"
    by (simp add: ex_defs available_def)
  from get_cart_prunes_stored_cart [OF ex_cart1, of 9] f u n show ?thesis
    by auto
qed

section \<open>The checkout loops against their description\<close>

lemma validate_items_spec:
  "fst (validate_items its v s) =
     v @ map (\<lambda>ip. order_line (fst ip) (snd ip)
                     (ci_price (fst ip) * of_int (ci_quantity (fst ip))))
           (spec_surviving its)"
  by (induction its arbitrary: v s)
     (auto simp: spec_surviving_def spec_line_skipped_def Let_def)

lemma validate_items_Nil:
  "fst (validate_items its [] 0) = [] \<longleftrightarrow> spec_surviving its = []"
  by (simp add: validate_items_spec)

lemma save_new_order_rejected:
  "save_new_order now (new_order uid sid its dt addr fee sub tot nts) st = None"
  by (simp add: save_new_order_def validate_order_def new_order_def)

lemma create_orders_Cons:
  "create_orders uid dt addr nts now (g # groups) acc st =
     (if spec_group_skipped st g then create_orders uid dt addr nts now groups acc st
      else (None, st))"
proof -
  obtain sid its where g: "g = (sid, its)" by (cases g)
  obtain v s where v: "validate_items its [] 0 = (v, s)" by (cases "validate_items its [] 0")
  then have "v = [] \<longleftrightarrow> spec_surviving its = []"
    using validate_items_Nil [of its] by simp
  with v show ?thesis
    by (auto simp: g spec_group_skipped_def spec_seller_active_def save_new_order_rejected
          Let_def split: option.splits)
qed

declare create_orders.simps(2) [simp del]

lemma create_orders_outcome:
  "create_orders uid dt addr nts now groups acc st =
     (if \<forall>g\<in>set groups. spec_group_skipped st g then Some acc else None, st)"
  by (induction groups) (simp_all add: create_orders_Cons)

lemma checkout_outcome:
  assumes "carts st uid = Some c" and "c_items c \<noteq> []"
    and "group_by_store (populate (products st) (c_items c)) [] = Some groups"
  shows "checkout uid dt addr nts now st =
     (if \<forall>g\<in>set groups. spec_group_skipped st g then Inl NoValidItems else Inl InternalError, st)"
  using assms by (simp add: checkout_def create_orders_outcome)

lemma checkout_state: "snd (checkout uid dt addr nts now st) = st"
  by (auto simp: checkout_def create_orders_outcome split: option.splits)


section \<open>Checkout on the sample database\<close>

lemma ex_cart1_nonempty: "c_items ex_cart1 \<noteq> []"
  by (simp add: ex_cart1_def)

lemma ex_groups1:
  "group_by_store (populate (products ex_state) (c_items ex_cart1)) [] = Some ex_groups1"
  by (simp add: ex_defs ex_groups1_def populate_def)

lemma ex_groups1_skipped:
  "\<not> spec_group_skipped ex_state (ex_groups1 ! 0)"
  "\<not> spec_group_skipped ex_state (ex_groups1 ! 1)"
  "spec_group_skipped ex_state (ex_groups1 ! 2)"
  by (simp_all add: ex_defs ex_groups1_def spec_group_skipped_def spec_seller_active_def
        findStoreById_def spec_surviving_def spec_line_skipped_def)

lemma ex_checkout1:
  "checkout 21 dt None None 7 ex_state = (Inl InternalError, ex_state)"
proof -
  have "\<not> (\<forall>g\<in>set ex_groups1. spec_group_skipped ex_state g)"
    using ex_groups1_skipped(1) by (auto simp: ex_groups1_def)
  then show ?thesis
    by (simp add: checkout_outcome [OF ex_cart1 ex_cart1_nonempty ex_groups1])
qed

lemma ex_checkout2:
  "checkout 22 dt None None 7 ex_state = (Inl NoValidItems, ex_state)"
proof -
  have c: "carts ex_state 22 = Some ex_cart2" "c_items ex_cart2 \<noteq> []"
    by (simp_all add: ex_state_def ex_cart2_def)
  have g: "group_by_store (populate (products ex_state) (c_items ex_cart2)) []
             = Some [(30, [(ex_line 14 1 9, ex_product 30 9 4 True)])]"
    by (simp add: ex_defs populate_def)
  have "\<forall>g\<in>set [(30, [(ex_line 14 1 9, ex_product 30 9 4 True)])]. spec_group_skipped ex_state g"
    by (simp add: ex_defs spec_group_skipped_def spec_seller_active_def findStoreById_def)
  then show ?thesis
    by (simp add: checkout_outcome [OF c g])
qed

section \<open>The claims about checkout\<close>






text \<open>
  C4 on the code. Customer 21's cart holds lines in stock at the active sellers 10 and 20.
  The first group's order is rejected by the save for want of an order number, the
  handler answers 500, and the cart keeps all its lines: the step that clears the cart is
  never reached.
\<close>

theorem checkout_rejected_save_keeps_cart:
  "checkout 21 Delivery None None 7 ex_state = (Inl InternalError, ex_state)
   \<and> carts (snd (checkout 21 Delivery None None 7 ex_state)) 21 = Some ex_cart1
   \<and> c_items ex_cart1 = [ex_line 11 3 10, ex_line 12 1 7, ex_line 13 1 50, ex_line 14 1 9]"
  by (simp add: ex_checkout1 ex_cart1) (simp add: ex_cart1_def)

text \<open>
  C5 on the code. For the same cart with pickup, the line loop keeps the one line in stock
  of seller 10 and the handler builds the order with subtotal 30, delivery fee 0 and
  total 30; the save rejects it, the answer is 500 and no order is stored, so no order with
  that pricing ever exists.
\<close>

theorem checkout_rejected_save_stores_no_order:
  "validate_items (snd (ex_groups1 ! 0)) [] 0 = ([ex_order_line 11 3 10], 30)
   \<and> save_new_order 7 (new_order 21 10 [ex_order_line 11 3 10] Pickup None 0 30 30 None) ex_state
       = None
   \<and> fst (checkout 21 Pickup None None 7 ex_state) = Inl InternalError
   \<and> orders (snd (checkout 21 Pickup None None 7 ex_state)) = Map.empty"
  by (simp add: ex_checkout1 save_new_order_rejected)
     (simp add: ex_defs ex_groups1_def ex_order_line_def order_line_def snapshot_image_def)

section \<open>Stock movements\<close>

lemma inc_stock_frame [simp]:
  "stores (inc_stock p d st) = stores st"
  "carts (inc_stock p d st) = carts st"
  "orders (inc_stock p d st) = orders st"
  "nextOrderId (inc_stock p d st) = nextOrderId st"
  by (auto simp: inc_stock_def split: option.splits)

lemma restore_stock_frame [simp]:
  "stores (restore_stock xs st) = stores st"
  "carts (restore_stock xs st) = carts st"
  "orders (restore_stock xs st) = orders st"
  "nextOrderId (restore_stock xs st) = nextOrderId st"
  by (induction xs arbitrary: st) auto

lemma findStoreById_frame [simp]:
  "findStoreById (st\<lparr>orders := x\<rparr>) k = findStoreById st k"
  "findStoreById (st\<lparr>carts := y\<rparr>) k = findStoreById st k"
  "findStoreById (st\<lparr>products := z\<rparr>) k = findStoreById st k"
  by (simp_all add: findStoreById_def)

lemma updateStore_frame [simp]:
  "orders (updateStore sid f st) = orders st"
  "carts (updateStore sid f st) = carts st"
  "products (updateStore sid f st) = products st"
  "nextOrderId (updateStore sid f st) = nextOrderId st"
  by (simp_all add: updateStore_def)

lemma findStoreById_updateStore:
  "findStoreById (updateStore sid f st) k =
     (if k = sid then map_option f (findStoreById st k) else findStoreById st k)"
  by (auto simp: findStoreById_def updateStore_def map_of_map_entry split: option.splits)

lemma products_inc_stock:
  "products (inc_stock pid d st) q =
     (if q = pid then map_option (\<lambda>p. p\<lparr>p_stock := p_stock p + d\<rparr>) (products st q)
      else products st q)"
  by (auto simp: inc_stock_def split: option.splits)

lemma ordered_qty_simps [simp]:
  "ordered_qty q [] = 0"
  "ordered_qty q (i # its) = (if oi_product i = q then oi_quantity i else 0) + ordered_qty q its"
  by (simp_all add: ordered_qty_def)

lemma products_restore_stock:
  "products (restore_stock its st) q =
     map_option (\<lambda>p. p\<lparr>p_stock := p_stock p + ordered_qty q its\<rparr>) (products st q)"
proof (induction its arbitrary: st)
  case Nil
  show ?case by (cases "products st q") simp_all
next
  case (Cons i its)
  show ?case
    by (cases "products st q") (auto simp: Cons.IH products_inc_stock add.assoc)
qed

lemma ordered_qty_nonneg:
  "list_all (\<lambda>item. 0 \<le> oi_quantity item) its \<Longrightarrow> 0 \<le> ordered_qty q its"
  by (induction its) auto

section \<open>Saving a stored order\<close>

lemma updateStatus_fields [simp]:
  "o_items (updateStatus s n t ord) = o_items ord"
  "o_status (updateStatus s n t ord) = s"
  "o_id (updateStatus s n t ord) = o_id ord"
  "o_customer (updateStatus s n t ord) = o_customer ord"
  "o_store (updateStatus s n t ord) = o_store ord"
  "o_pricing (updateStatus s n t ord) = o_pricing ord"
  "o_rating (updateStatus s n t ord) = o_rating ord"
  "o_orderNumber (updateStatus s n t ord) = o_orderNumber ord"
  by (simp_all add: updateStatus_def Let_def)

lemma calculateTotal_fields [simp]:
  "o_items (calculateTotal ord) = o_items ord"
  "o_status (calculateTotal ord) = o_status ord"
  "o_id (calculateTotal ord) = o_id ord"
  "o_customer (calculateTotal ord) = o_customer ord"
  "o_store (calculateTotal ord) = o_store ord"
  "o_rating (calculateTotal ord) = o_rating ord"
  by (simp_all add: calculateTotal_def Let_def)

lemma validate_order_updateStatus [simp]:
  "validate_order (updateStatus s n t ord) = validate_order ord"
  by (simp add: validate_order_def)

lemma validate_order_quantities:
  "validate_order ord \<Longrightarrow> list_all (\<lambda>item. 0 \<le> oi_quantity item) (o_items ord)"
  by (auto simp: validate_order_def list_all_iff)

section \<open>Cancelling\<close>

lemma cancel_order_ok:
  assumes "orders st oid = Some ord" and "o_id ord = oid" and "o_customer ord = uid"
    and "o_status ord \<notin> {Delivered, Cancelled, Refunded}" and "validate_order ord"
  shows "cancel_order uid oid reason now st =
     (Inr (calculateTotal (updateStatus Cancelled (cancel_reason reason) now ord)),
      restore_stock (o_items ord)
        (st\<lparr>orders := (orders st)
               (oid \<mapsto> calculateTotal (updateStatus Cancelled (cancel_reason reason) now ord))\<rparr>))"
  using assms by (simp add: cancel_order_def save_order_def Let_def)

lemma cancel_order_refused:
  assumes "orders st oid = Some ord" and "o_customer ord = uid"
    and "o_status ord \<in> {Delivered, Cancelled, Refunded}"
  shows "cancel_order uid oid reason now st = (Inl NotCancellable, st)"
  using assms by (simp add: cancel_order_def)

lemma cancel_order_products:
  "products (snd (cancel_order uid oid reason now st)) q = products st q
   \<or> (\<exists>ord. validate_order ord
        \<and> products (snd (cancel_order uid oid reason now st)) q
            = map_option (\<lambda>p. p\<lparr>p_stock := p_stock p + ordered_qty q (o_items ord)\<rparr>)
                (products st q))"
proof (cases "orders st oid")
  case None
  then show ?thesis by (simp add: cancel_order_def)
next
  case (Some ord)
  show ?thesis
  proof (cases "o_customer ord = uid \<and> o_status ord \<notin> {Delivered, Cancelled, Refunded}
                  \<and> validate_order ord")
    case True
    with Some have "products (snd (cancel_order uid oid reason now st)) q
        = map_option (\<lambda>p. p\<lparr>p_stock := p_stock p + ordered_qty q (o_items ord)\<rparr>)
            (products st q)"
      by (simp add: cancel_order_def save_order_def Let_def products_restore_stock)
    with True show ?thesis by blast
  next
    case False
    with Some have "snd (cancel_order uid oid reason now st) = st"
      by (auto simp: cancel_order_def save_order_def)
    then show ?thesis by simp
  qed
qed

text \<open>
  C7, as the code has it. For a stored order of the caller: cancelling fails with
  NotCancellable exactly when the status is delivered, cancelled or refunded, and then
  nothing changes. Otherwise, when the order satisfies the order schema, it is answered and
  stored with status cancelled, every product's stock grows by the quantity the order's
  lines hold of it, and a cancel of the same order in the database so reached fails with
  NotCancellable and changes nothing.
\<close>

theorem cancel_order_restores_stock:
  assumes "orders st oid = Some ord" and "o_id ord = oid" and "o_customer ord = uid"
  shows "(fst (cancel_order uid oid reason now st) = Inl NotCancellable
            \<longleftrightarrow> o_status ord \<in> {Delivered, Cancelled, Refunded})
       \<and> (o_status ord \<in> {Delivered, Cancelled, Refunded}
            \<longrightarrow> snd (cancel_order uid oid reason now st) = st)
       \<and> (o_status ord \<notin> {Delivered, Cancelled, Refunded} \<and> validate_order ord \<longrightarrow>
            (\<exists>o1. fst (cancel_order uid oid reason now st) = Inr o1
                \<and> o_status o1 = Cancelled
                \<and> orders (snd (cancel_order uid oid reason now st)) oid = Some o1)
            \<and> (\<forall>q. products (snd (cancel_order uid oid reason now st)) q
                   = map_option (\<lambda>p. p\<lparr>p_stock := p_stock p + ordered_qty q (o_items ord)\<rparr>)
                       (products st q))
            \<and> cancel_order uid oid reason2 now2 (snd (cancel_order uid oid reason now st))
                = (Inl NotCancellable, snd (cancel_order uid oid reason now st)))"
proof (intro conjI)
  show "fst (cancel_order uid oid reason now st) = Inl NotCancellable
          \<longleftrightarrow> o_status ord \<in> {Delivered, Cancelled, Refunded}"
    using assms by (simp add: cancel_order_def split: option.splits)
  show "o_status ord \<in> {Delivered, Cancelled, Refunded}
          \<longrightarrow> snd (cancel_order uid oid reason now st) = st"
    using assms by (simp add: cancel_order_def)
  show "o_status ord \<notin> {Delivered, Cancelled, Refunded} \<and> validate_order ord \<longrightarrow>
          (\<exists>o1. fst (cancel_order uid oid reason now st) = Inr o1
              \<and> o_status o1 = Cancelled
              \<and> orders (snd (cancel_order uid oid reason now st)) oid = Some o1)
          \<and> (\<forall>q. products (snd (cancel_order uid oid reason now st)) q
                 = map_option (\<lambda>p. p\<lparr>p_stock := p_stock p + ordered_qty q (o_items ord)\<rparr>)
                     (products st q))
          \<and> cancel_order uid oid reason2 now2 (snd (cancel_order uid oid reason now st))
              = (Inl NotCancellable, snd (cancel_order uid oid reason now st))"
  proof
    assume ok: "o_status ord \<notin> {Delivered, Cancelled, Refunded} \<and> validate_order ord"
    let ?o1 = "calculateTotal (updateStatus Cancelled (cancel_reason reason) now ord)"
    let ?st1 = "restore_stock (o_items ord) (st\<lparr>orders := (orders st)(oid \<mapsto> ?o1)\<rparr>)"
    have r: "cancel_order uid oid reason now st = (Inr ?o1, ?st1)"
      using assms ok by (simp add: cancel_order_ok)
    have s: "orders ?st1 oid = Some ?o1" by simp
    have again: "cancel_order uid oid reason2 now2 ?st1 = (Inl NotCancellable, ?st1)"
      by (rule cancel_order_refused [OF s]) (simp_all add: assms)
    show "(\<exists>o1. fst (cancel_order uid oid reason now st) = Inr o1
              \<and> o_status o1 = Cancelled
              \<and> orders (snd (cancel_order uid oid reason now st)) oid = Some o1)
          \<and> (\<forall>q. products (snd (cancel_order uid oid reason now st)) q
                 = map_option (\<lambda>p. p\<lparr>p_stock := p_stock p + ordered_qty q (o_items ord)\<rparr>)
                     (products st q))
          \<and> cancel_order uid oid reason2 now2 (snd (cancel_order uid oid reason now st))
              = (Inl NotCancellable, snd (cancel_order uid oid reason now st))"
      using again by (simp add: r products_restore_stock)
  qed
qed

lemma ex_pending_valid: "validate_order ex_pending"
  by (simp add: ex_pending_def ex_order_def ex_order_line_def validate_order_def)

lemma ex_pending_stored: "orders ex_db 50 = Some ex_pending"
  by (simp add: ex_db_def)

lemmas ex_db_defs = ex_db_def ex_pending_def ex_delivered_def ex_order_def ex_order_line_def
  ex_product_def ex_store_def ex_cart3_def ex_line_def

theorem cancel_order_restores_stock_witness:
  "fst (cancel_order 21 50 None 8 ex_db) \<noteq> Inl NotCancellable
   \<and> map_option p_stock (products (snd (cancel_order 21 50 None 8 ex_db)) 11) = Some 5
   \<and> cancel_order 21 50 None 9 (snd (cancel_order 21 50 None 8 ex_db))
       = (Inl NotCancellable, snd (cancel_order 21 50 None 8 ex_db))"
proof -
  have h: "o_id ex_pending = 50" "o_customer ex_pending = 21"
    "o_status ex_pending \<notin> {Delivered, Cancelled, Refunded} \<and> validate_order ex_pending"
    using ex_pending_valid by (simp_all add: ex_pending_def ex_order_def)
  have q: "map_option (\<lambda>p. p_stock (p\<lparr>p_stock := p_stock p + ordered_qty 11 (o_items ex_pending)\<rparr>))
             (products ex_db 11) = Some 5"
    by (simp add: ex_db_defs)
  from cancel_order_restores_stock [OF ex_pending_stored h(1,2), of None 8 None 9] h(3) q
  show ?thesis by (simp add: option.map_comp comp_def)
qed

text \<open>
  Stock is restored once per successful cancel, not once per order: the status route
  accepts \<open>pending\<close> for a cancelled order, and a second cancel then succeeds and restores
  again. Product 11 goes from 2 to 8 for an order of 3 units.
\<close>

theorem cancel_twice_after_status_reset_counterexample:
  "map_option p_stock (products ex_db 11) = Some 2
   \<and> ordered_qty 11 (o_items ex_pending) = 3
   \<and> fst (cancel_order 21 50 None 10
            (run js_exact [CancelOrder 21 50 None 8, UpdateStatus 100 50 Pending [] 9] ex_db))
       \<noteq> Inl NotCancellable
   \<and> map_option p_stock
        (products (run js_exact [CancelOrder 21 50 None 8, UpdateStatus 100 50 Pending [] 9,
                                 CancelOrder 21 50 None 10] ex_db) 11) = Some 8"
  by (simp add: run_def ex_db_defs cancel_order_def update_order_status_def save_order_def
        validate_order_def updateStatus_def calculateTotal_def Let_def findStoreByOwner_def
        cancel_reason_def inc_stock_def)

section \<open>Rating an order\<close>



lemma validate_order_addRating:
  "1 \<le> v \<Longrightarrow> v \<le> 5 \<Longrightarrow> validate_order ord \<Longrightarrow> validate_order (addRating v review now ord)"
  by (simp add: validate_order_def addRating_def)

lemma addRating_fields [simp]:
  "o_id (addRating v review now ord) = o_id ord"
  "o_store (addRating v review now ord) = o_store ord"
  "o_customer (addRating v review now ord) = o_customer ord"
  "o_status (addRating v review now ord) = o_status ord"
  "o_rating (addRating v review now ord) = Some \<lparr>r_value = v, r_review = review, r_ratedAt = now\<rparr>"
  by (simp_all add: addRating_def)




lemma ex_delivered_facts:
  "orders ex_db 51 = Some ex_delivered" "o_id ex_delivered = 51" "o_customer ex_delivered = 21"
  "o_status ex_delivered = Delivered \<and> \<not> has_rating ex_delivered \<and> validate_order ex_delivered"
  "o_store ex_delivered = 10"
  by (simp_all add: ex_db_defs has_rating_def validate_order_def)

lemma ex_db_store:
  "findStoreById ex_db 10
     = Some ((ex_store 100 True 5)\<lparr>s_rating_average := 5, s_rating_count := 2\<rparr>)"
  by (simp add: findStoreById_def ex_db_def)

lemma fl_exact: "fl js_exact x = x"
  by (simp add: js_exact_def)



lemma rating_sum_exact_string: "rating_sum js_exact 5 2 (RatingStr ''4'') = Some 104"
proof -
  have d: "nat_to_dec 10 = ''10''" by code_simp
  have n: "numToString js_exact 10 = ''10''" by (simp add: js_exact_def d)
  have i: "isInt_string ''104'' = Some 104"
    by (simp add: isInt_string_def is_digit_def digits_val_def)
  have p: "stringToNum js_exact ''104'' = Some 104" by (simp add: js_exact_def i)
  show ?thesis using n p by (simp add: rating_sum_def fl_exact)
qed

text \<open>
  A rating sent as the JSON string "4" passes the validator and is concatenated, not
  added: from the same seller, 10 and "4" give 104, and 34.67 is stored.
\<close>

lemma rate_order_string_concatenates:
  "rating_int (RatingStr ''4'') = Some 4
   \<and> map_option s_rating_average
        (findStoreById (snd (rate_order js_exact 21 51 (RatingStr ''4'') [] 9 ex_db)) 10)
       = Some (3467 / 100)"
proof -
  have i: "isInt_string ''4'' = Some 4"
    by (simp add: isInt_string_def is_digit_def digits_val_def)
  have r: "rating_int (RatingStr ''4'') = Some 4" by (simp add: rating_int_def i)
  have s: "save_order (addRating 4 [] 9 ex_delivered) ex_db
      = Some (calculateTotal (addRating 4 [] 9 ex_delivered),
              ex_db\<lparr>orders := (orders ex_db)(51 \<mapsto> calculateTotal (addRating 4 [] 9 ex_delivered))\<rparr>)"
    using ex_delivered_facts by (simp add: save_order_def validate_order_addRating Let_def)
  have "findStoreById (snd (rate_order js_exact 21 51 (RatingStr ''4'') [] 9 ex_db)) 10
      = Some ((ex_store 100 True 5)\<lparr>s_rating_average := 3467 / 100, s_rating_count := 3\<rparr>)"
    using ex_delivered_facts
    by (simp add: rate_order_def r s ex_db_store rating_sum_exact_string Let_def round2_def
          fl_exact findStoreById_updateStore floor_eq_iff)
  with r show ?thesis by simp
qed

section \<open>What each handler leaves alone\<close>

lemma save_order_Some:
  "save_order ord st = Some (o1, st1) \<Longrightarrow>
     o1 = calculateTotal ord \<and> st1 = st\<lparr>orders := (orders st)(o_id ord \<mapsto> o1)\<rparr>
     \<and> validate_order ord"
  by (auto simp: save_order_def Let_def split: if_splits)

lemma get_cart_frame:
  "orders (snd (get_cart uid now st)) = orders st"
  "products (snd (get_cart uid now st)) = products st"
  by (auto simp: get_cart_def Let_def split: option.splits)

lemma remove_from_cart_frame:
  "orders (snd (remove_from_cart uid pid now st)) = orders st"
  "products (snd (remove_from_cart uid pid now st)) = products st"
  by (auto simp: remove_from_cart_def Let_def split: option.splits)

lemma update_order_status_products:
  "products (snd (update_order_status uid oid s nt now st)) = products st"
  by (auto simp: update_order_status_def split: option.splits prod.splits dest!: save_order_Some)

lemma rate_order_products:
  "products (snd (rate_order js uid oid r review now st)) = products st"
  by (auto simp: rate_order_def Let_def split: option.splits prod.splits if_splits
        dest!: save_order_Some)

section \<open>The pricing equation\<close>

lemma pricing_consistent_calculateTotal [simp]: "pricing_consistent (calculateTotal ord)"
  by (simp add: pricing_consistent_def calculateTotal_def Let_def)

lemma save_order_consistent:
  "all_orders_consistent st \<Longrightarrow> save_order ord st = Some (o1, st1) \<Longrightarrow>
     all_orders_consistent st1"
  by (auto simp: all_orders_consistent_def dest!: save_order_Some split: if_splits)

lemma update_order_status_consistent:
  "all_orders_consistent st \<Longrightarrow>
     all_orders_consistent (snd (update_order_status uid oid s nt now st))"
  by (auto simp: update_order_status_def split: option.splits prod.splits
        intro: save_order_consistent)

lemma cancel_order_consistent:
  assumes "all_orders_consistent st"
  shows "all_orders_consistent (snd (cancel_order uid oid reason now st))"
proof -
  have "all_orders_consistent (restore_stock its st1)" if "all_orders_consistent st1" for its st1
    using that by (simp add: all_orders_consistent_def)
  with assms show ?thesis
    by (auto simp: cancel_order_def split: option.splits prod.splits
          dest: save_order_consistent)
qed

lemma rate_order_consistent:
  assumes "all_orders_consistent st"
  shows "all_orders_consistent (snd (rate_order js uid oid r review now st))"
proof -
  have "all_orders_consistent (updateStore sid f st1)" if "all_orders_consistent st1"
    for sid f st1
    using that by (simp add: all_orders_consistent_def)
  with assms show ?thesis
    by (auto simp: rate_order_def Let_def split: option.splits prod.splits
          dest: save_order_consistent)
qed

lemma handle_consistent:
  "all_orders_consistent st \<Longrightarrow> all_orders_consistent (handle js r st)"
  by (cases r)
     (simp_all add: all_orders_consistent_def [of "snd (get_cart _ _ _)"]
        all_orders_consistent_def [of "snd (remove_from_cart _ _ _ _)"]
        get_cart_frame remove_from_cart_frame checkout_state update_order_status_consistent
        cancel_order_consistent rate_order_consistent,
      simp_all add: all_orders_consistent_def)

lemma fold_handle_consistent:
  "all_orders_consistent st \<Longrightarrow> all_orders_consistent (fold (handle js) rs st)"
  by (induction rs arbitrary: st) (simp_all add: handle_consistent)

text \<open>
  C6. If every stored order satisfies total = subtotal + deliveryFee + tax - discount,
  then so does every stored order after any list of requests (cart reads and removals,
  checkouts, status updates, cancellations, ratings), hence at every point in between.
  Every save that stores an order stores it with the total recomputed from the
  components, whatever total the document carried.
\<close>

theorem pricing_total_invariant:
  assumes "all_orders_consistent st"
  shows "all_orders_consistent (run js rs st)
       \<and> (\<forall>o1 st1. save_order ord st' = Some (o1, st1) \<longrightarrow>
             pricing_consistent o1 \<and> orders st1 (o_id o1) = Some o1)"
  using assms
  by (auto simp: run_def fold_handle_consistent dest!: save_order_Some)

lemma ex_db_consistent: "all_orders_consistent ex_db"
  by (simp add: all_orders_consistent_def pricing_consistent_def ex_db_defs)

theorem pricing_total_invariant_witness:
  "all_orders_consistent
     (run js_exact [CancelOrder 21 50 None 8, RateOrder 21 51 (RatingNum 4) [] 9] ex_db)
   \<and> map_option (\<lambda>ord. (o_status ord, total (o_pricing ord)))
        (orders (run js_exact [CancelOrder 21 50 None 8, RateOrder 21 51 (RatingNum 4) [] 9]
                   ex_db) 50) = Some (Cancelled, 38)
   \<and> map_option (\<lambda>r. total (o_pricing (fst r)))
        (save_order (ex_pending\<lparr>o_pricing := (o_pricing ex_pending)\<lparr>total := 1\<rparr>\<rparr>) ex_db)
       = Some 38"
proof -
  let ?rs = "[CancelOrder 21 50 None 8, RateOrder 21 51 (RatingNum 4) [] 9]"
  let ?ord = "ex_pending\<lparr>o_pricing := (o_pricing ex_pending)\<lparr>total := 1\<rparr>\<rparr>"
  have s: "map_option (\<lambda>ord. (o_status ord, total (o_pricing ord)))
             (orders (run js_exact ?rs ex_db) 50) = Some (Cancelled, 38)"
    by (simp add: run_def ex_db_defs cancel_order_def rate_order_def rating_int_def
          save_order_def validate_order_def updateStatus_def addRating_def calculateTotal_def
          Let_def has_rating_def findStoreById_def rating_sum_def updateStore_def
          cancel_reason_def inc_stock_def)
  have v: "save_order ?ord ex_db
             = Some (calculateTotal ?ord,
                     ex_db\<lparr>orders := (orders ex_db)(o_id ?ord \<mapsto> calculateTotal ?ord)\<rparr>)"
    by (simp add: save_order_def validate_order_def Let_def ex_db_defs)
  have c: "subtotal (o_pricing (calculateTotal ?ord)) + deliveryFee (o_pricing (calculateTotal ?ord))
             + tax (o_pricing (calculateTotal ?ord)) - discount (o_pricing (calculateTotal ?ord))
           = 38"
    by (simp add: calculateTotal_def Let_def ex_db_defs)
  from pricing_total_invariant [OF ex_db_consistent, of js_exact ?rs ?ord ex_db] v
  have "all_orders_consistent (run js_exact ?rs ex_db)"
    and "pricing_consistent (calculateTotal ?ord)"
    by simp_all
  with s v c show ?thesis
    by (simp add: pricing_consistent_def)
qed

section \<open>Stock never below zero\<close>

lemma cancel_order_stock:
  assumes "stock_nonneg st"
  shows "stock_nonneg (snd (cancel_order uid oid reason now st))"
  unfolding stock_nonneg_def
proof (intro allI impI)
  fix pid p
  assume a: "products (snd (cancel_order uid oid reason now st)) pid = Some p"
  from cancel_order_products [of uid oid reason now st pid]
  show "0 \<le> p_stock p"
  proof
    assume "products (snd (cancel_order uid oid reason now st)) pid = products st pid"
    with a assms show ?thesis by (simp add: stock_nonneg_def)
  next
    assume "\<exists>ord. validate_order ord
        \<and> products (snd (cancel_order uid oid reason now st)) pid
            = map_option (\<lambda>p. p\<lparr>p_stock := p_stock p + ordered_qty pid (o_items ord)\<rparr>)
                (products st pid)"
    then obtain ord where v: "validate_order ord"
      and e: "products (snd (cancel_order uid oid reason now st)) pid
            = map_option (\<lambda>p. p\<lparr>p_stock := p_stock p + ordered_qty pid (o_items ord)\<rparr>)
                (products st pid)" by blast
    from a e obtain p0 where p0: "products st pid = Some p0"
      and p: "p = p0\<lparr>p_stock := p_stock p0 + ordered_qty pid (o_items ord)\<rparr>" by auto
    have "0 \<le> ordered_qty pid (o_items ord)"
      using v by (intro ordered_qty_nonneg validate_order_quantities)
    moreover have "0 \<le> p_stock p0" using assms p0 by (simp add: stock_nonneg_def)
    ultimately show ?thesis by (simp add: p)
  qed
qed

lemma handle_stock:
  "stock_nonneg st \<Longrightarrow> stock_nonneg (handle js r st)"
  by (cases r)
     (simp_all add: stock_nonneg_def [of "snd (get_cart _ _ _)"]
        stock_nonneg_def [of "snd (remove_from_cart _ _ _ _)"]
        stock_nonneg_def [of "snd (update_order_status _ _ _ _ _ _)"]
        stock_nonneg_def [of "snd (rate_order _ _ _ _ _ _ _)"]
        get_cart_frame remove_from_cart_frame checkout_state update_order_status_products
        rate_order_products cancel_order_stock,
      simp_all add: stock_nonneg_def)

text \<open>
  C1. If no stored product has a negative stock, none has after any list of requests,
  whether its stock is tracked or not. Checkout never reaches its stock loop, because the
  save before it throws; a cancel adds the quantities of an order that has passed the
  schema's validators, which are at least 1.
\<close>

theorem stock_never_negative:
  assumes "stock_nonneg st"
  shows "stock_nonneg (run js rs st)"
  using assms unfolding run_def
  by (induction rs arbitrary: st) (simp_all add: handle_stock)

theorem stock_never_negative_witness:
  "stock_nonneg (run js_exact [Checkout 21 Pickup None None 7, CancelOrder 21 50 None 8] ex_db)
   \<and> map_option p_stock (products ex_db 15) = Some 0
   \<and> map_option p_trackStock (products ex_db 15) = Some False
   \<and> map_option p_stock (products (run js_exact [Checkout 21 Pickup None None 7] ex_db) 15)
       = Some 0
   \<and> map_option p_stock
        (products (run js_exact [Checkout 21 Pickup None None 7, CancelOrder 21 50 None 8] ex_db)
           15) = Some 1
   \<and> map_option p_stock
        (products (run js_exact [Checkout 21 Pickup None None 7, CancelOrder 21 50 None 8] ex_db)
           11) = Some 5"
proof -
  have n: "stock_nonneg ex_db"
    by (simp add: stock_nonneg_def ex_db_defs)
  have e: "map_option p_stock (products ex_db 15) = Some 0
     \<and> map_option p_trackStock (products ex_db 15) = Some False
     \<and> map_option p_stock (products (snd (cancel_order 21 50 None 8 ex_db)) 15) = Some 1
     \<and> map_option p_stock (products (snd (cancel_order 21 50 None 8 ex_db)) 11) = Some 5"
    by (simp add: ex_db_defs cancel_order_def save_order_def validate_order_def
          updateStatus_def calculateTotal_def Let_def cancel_reason_def inc_stock_def)
  from stock_never_negative [OF n, of js_exact
      "[Checkout 21 Pickup None None 7, CancelOrder 21 50 None 8]"] e
  show ?thesis by (simp add: run_def checkout_state)
qed

end
